theory Spec2Isabelle
  imports Complex_Main
begin

section \<open>Values: instruments, assets, trades\<close>

text \<open>
  The portfolio module imports \<open>Instrument\<close>, \<open>Asset\<close>, \<open>ValuedTrade\<close> and
  \<open>ClosedPosition\<close> from sibling modules. Their fields are fixed by the way
  \<open>portfolio.py\<close> uses them (\<open>asset.instrument\<close>, \<open>asset.quantity\<close>,
  \<open>instrument.precision\<close>, \<open>trade._sell\<close>, \<open>trade._buy\<close>,
  \<open>ClosedPosition(amount=, open=, close=)\<close>).
\<close>

datatype Instrument = Instrument (symbol: string) (precision: nat)

text \<open>
  A quantity is a decimal normed to the precision of its instrument. It is kept here
  as the integer number of smallest units (\<open>10 ^ - precision\<close>) of that instrument, so
  that sums and differences of two assets of one instrument are exact.
\<close>

record Asset =
  instrument :: Instrument
  quantity :: int

record ValuedTrade =
  sell :: Asset
  buy :: Asset
  valuation :: Asset

record ClosedPosition =
  amount :: Asset
  opened :: ValuedTrade
  closed :: ValuedTrade

text \<open>The exceptions that the modelled code can raise.\<close>

datatype error =
    ValueError
  | IndexError
  | KeyError
  | AttributeError
  | ZeroDivisionError
  | InstrumentMismatchError

subsection \<open>Asset arithmetic\<close>

text \<open>
  The module \<open>merchant.trading.tools.asset\<close> lies outside the two files embedded
  here, so the operators that \<open>portfolio.py\<close> applies to assets follow the contract
  of section 4.1 and of the error taxonomy of the specification. Every operator
  returns a new asset: \<open>sold_asset -= asset\<close> rebinds the local variable and leaves
  \<open>trade._sell\<close> as it is.
\<close>

text \<open>
  Modelled from the spec: \<open>Asset.__add__\<close>, missing from the sources. The operands
  must share their instrument, otherwise the sum fails with the instrument mismatch
  error.
\<close>

definition asset_add :: "Asset \<Rightarrow> Asset \<Rightarrow> error + Asset" where
  "asset_add a b =
     (if instrument a = instrument b
      then Inr (a\<lparr>quantity := quantity a + quantity b\<rparr>)
      else Inl InstrumentMismatchError)"

text \<open>
  Modelled from the spec: \<open>Asset.__sub__\<close>, missing from the sources. The operands
  must share their instrument; the difference may be negative.
\<close>

definition asset_sub :: "Asset \<Rightarrow> Asset \<Rightarrow> error + Asset" where
  "asset_sub a b =
     (if instrument a = instrument b
      then Inr (a\<lparr>quantity := quantity a - quantity b\<rparr>)
      else Inl InstrumentMismatchError)"

text \<open>
  Modelled from the spec: \<open>Asset.__le__\<close>, missing from the sources. Quantities are
  compared when the instruments match; otherwise the comparison fails with the
  instrument mismatch error.
\<close>

definition asset_le :: "Asset \<Rightarrow> Asset \<Rightarrow> error + bool" where
  "asset_le a b =
     (if instrument a = instrument b
      then Inr (quantity a \<le> quantity b)
      else Inl InstrumentMismatchError)"

text \<open>
  Modelled from the spec: \<open>Asset.__gt__\<close> against the number \<open>0\<close>, missing from the
  sources. The quantity is tested against zero.
\<close>

definition asset_gt_zero :: "Asset \<Rightarrow> bool" where
  "asset_gt_zero a = (0 < quantity a)"

section \<open>Holdings: the class \<open>_StaticPortfolio\<close>\<close>

text \<open>
  \<open>_assets\<close> is a dictionary from instruments to assets. Every method below takes
  the dictionary and returns the outcome of the call together with the dictionary as
  the call leaves it, also when the call raises.
\<close>

type_synonym Holdings = "Instrument \<rightharpoonup> Asset"

definition getitem :: "Holdings \<Rightarrow> Instrument \<Rightarrow> Asset" where
  "getitem h i =
     (case h i of
        None \<Rightarrow> \<lparr>instrument = i, quantity = 0\<rparr>
      | Some a \<Rightarrow> a)"

definition add_asset :: "Holdings \<Rightarrow> Asset \<Rightarrow> (error + unit) \<times> Holdings" where
  "add_asset h asset =
     (let owned = getitem h (instrument asset)
      in case asset_add owned asset of
           Inl e \<Rightarrow> (Inl e, h)
         | Inr new \<Rightarrow> (Inr (), h(instrument owned \<mapsto> new)))"

definition has_asset :: "Holdings \<Rightarrow> Asset \<Rightarrow> bool" where
  "has_asset h asset = (quantity (getitem h (instrument asset)) \<ge> quantity asset)"

text \<open>
  \<open>del self._assets[k]\<close> raises \<open>KeyError\<close> when \<open>k\<close> is not a key.
\<close>

definition remove_asset :: "Holdings \<Rightarrow> Asset \<Rightarrow> (error + unit) \<times> Holdings" where
  "remove_asset h asset =
     (let owned = getitem h (instrument asset)
      in if has_asset h asset = False then (Inl ValueError, h)
         else case asset_sub owned asset of
                Inl e \<Rightarrow> (Inl e, h)
              | Inr new \<Rightarrow>
                  if quantity new > 0
                  then (if h (instrument owned) = None then (Inl KeyError, h)
                        else (Inr (), h(instrument owned := None)))
                  else (Inr (), h(instrument owned \<mapsto> new)))"

definition contains :: "Holdings \<Rightarrow> Instrument \<Rightarrow> bool" where
  "contains h i = (quantity (getitem h i) > 0)"

section \<open>Lot matching: the class \<open>_OpenPositionStack\<close>\<close>

text \<open>
  The lists of \<open>_positions\<close> hold tuples. \<open>_push\<close> appends a tuple of three
  components, \<open>_pop\<close> appends tuples of two and unpacks every tuple it pops into two
  names, which raises \<open>ValueError\<close> on a tuple of three. Both shapes are therefore
  kept apart.
\<close>

datatype TradeTuple =
    Tuple2 Asset ValuedTrade
  | Tuple3 Asset int ValuedTrade

text \<open>
  \<open>_positions\<close> is a \<open>defaultdict(list)\<close>: a key never written reads as the empty
  list. It is a total function here. The end of a list is the top of the stack, as
  with \<open>append\<close> and \<open>pop\<close>.
\<close>

record OpenPositionStack =
  positions :: "Instrument \<Rightarrow> TradeTuple list"
  benchmark :: Instrument

definition list_append :: "Instrument \<Rightarrow> TradeTuple \<Rightarrow> OpenPositionStack \<Rightarrow> OpenPositionStack" where
  "list_append k t s = s\<lparr>positions := (positions s)(k := positions s k @ [t])\<rparr>"

definition list_pop :: "Instrument \<Rightarrow> OpenPositionStack \<Rightarrow> OpenPositionStack" where
  "list_pop k s = s\<lparr>positions := (positions s)(k := butlast (positions s k))\<rparr>"

definition push :: "ValuedTrade \<Rightarrow> OpenPositionStack \<Rightarrow> OpenPositionStack" where
  "push trade s = list_append (instrument (buy trade)) (Tuple3 (buy trade) 0 trade) s"

text \<open>
  One pass through the body of the \<open>while\<close> loop of \<open>_pop\<close>, entered with the
  current \<open>sold_asset\<close> and \<open>ret\<close>. It either raises, or hands the two variables
  on to the next test of the loop condition. The first branch ends in \<open>continue\<close>
  and leaves \<open>sold_asset\<close> as it is; it subtracts \<open>trade._sell\<close> from the lot and
  records \<open>trade._sell\<close> as the amount.
\<close>

definition pop_body ::
  "ValuedTrade \<Rightarrow> Asset \<Rightarrow> ClosedPosition list \<Rightarrow> OpenPositionStack
   \<Rightarrow> (error + Asset \<times> ClosedPosition list) \<times> OpenPositionStack" where
  "pop_body trade sold_asset ret s =
     (let k = instrument (sell trade)
      in if positions s k = [] then (Inl IndexError, s)
         else
           (case last (positions s k) of
              Tuple3 a z t \<Rightarrow> (Inl ValueError, list_pop k s)
            | Tuple2 asset open_trade \<Rightarrow>
                (case asset_le sold_asset asset of
                   Inl e \<Rightarrow> (Inl e, list_pop k s)
                 | Inr below \<Rightarrow>
                     if below then
                       (case asset_sub asset (sell trade) of
                          Inl e \<Rightarrow> (Inl e, list_pop k s)
                        | Inr rest \<Rightarrow>
                            (Inr (sold_asset,
                                  ret @ [\<lparr>amount = sell trade, opened = open_trade,
                                          closed = trade\<rparr>]),
                             list_append k (Tuple2 rest open_trade) (list_pop k s)))
                     else
                       (case asset_sub sold_asset asset of
                          Inl e \<Rightarrow> (Inl e, list_pop k s)
                        | Inr sold_rest \<Rightarrow>
                            (Inr (sold_rest,
                                  ret @ [\<lparr>amount = asset, opened = open_trade,
                                          closed = trade\<rparr>]),
                             list_pop k s)))))"

text \<open>
  The loop itself. Nothing in its text bounds the number of passes, so a run that
  never leaves the loop is the value \<open>None\<close>.
\<close>

partial_function (option) pop_loop ::
  "ValuedTrade \<Rightarrow> Asset \<Rightarrow> ClosedPosition list \<Rightarrow> OpenPositionStack
   \<Rightarrow> ((error + ClosedPosition list) \<times> OpenPositionStack) option" where
  "pop_loop trade sold_asset ret s =
     (if asset_gt_zero sold_asset then
        (case pop_body trade sold_asset ret s of
           (Inl e, s') \<Rightarrow> Some (Inl e, s')
         | (Inr (sold_next, ret_next), s') \<Rightarrow> pop_loop trade sold_next ret_next s')
      else Some (Inr ret, s))"

definition pop ::
  "ValuedTrade \<Rightarrow> OpenPositionStack
   \<Rightarrow> ((error + ClosedPosition list) \<times> OpenPositionStack) option" where
  "pop trade s = pop_loop trade (sell trade) [] s"

definition handle_trade ::
  "ValuedTrade \<Rightarrow> OpenPositionStack
   \<Rightarrow> ((error + ClosedPosition list) \<times> OpenPositionStack) option" where
  "handle_trade trade s =
     (let s1 = (if instrument (buy trade) \<noteq> benchmark s then push trade s else s)
      in if instrument (sell trade) \<noteq> benchmark s1 then pop trade s1
         else Some (Inr [], s1))"

text \<open>The quantity that the lots of one instrument add up to.\<close>

fun lot_asset :: "TradeTuple \<Rightarrow> Asset" where
  "lot_asset (Tuple2 a t) = a"
| "lot_asset (Tuple3 a z t) = a"

definition lot_total :: "OpenPositionStack \<Rightarrow> Instrument \<Rightarrow> int" where
  "lot_total s k = sum_list (map (\<lambda>t. quantity (lot_asset t)) (positions s k))"

section \<open>The class \<open>Portfolio\<close>\<close>

text \<open>
  Of the fields of \<open>Portfolio\<close>, the holdings, the two histories and the lot stacks
  take part in the application of a trade. They are taken as initialised the way
  their annotations declare them.
\<close>

record Portfolio =
  assets :: Holdings
  trade_history :: "ValuedTrade list"
  open_positions :: OpenPositionStack
  closed_positions :: "ClosedPosition list"

definition append_trade_to_history ::
  "ValuedTrade \<Rightarrow> Portfolio \<Rightarrow> ((error + unit) \<times> Portfolio) option" where
  "append_trade_to_history trade p =
     (let p1 = p\<lparr>trade_history := trade_history p @ [trade]\<rparr>
      in case handle_trade trade (open_positions p1) of
           None \<Rightarrow> None
         | Some (Inl e, s') \<Rightarrow> Some (Inl e, p1\<lparr>open_positions := s'\<rparr>)
         | Some (Inr cps, s') \<Rightarrow>
             Some (Inr (), p1\<lparr>open_positions := s',
                               closed_positions := closed_positions p1 @ cps\<rparr>))"

text \<open>
  Modelled from the spec: \<open>Portfolio.execute_trade\<close>, missing from the sources.
  Section 4.4 describes it: it applies \<open>remove_asset(trade.sell)\<close> and
  \<open>add_asset(trade.buy)\<close> to the holdings (if the removal fails, the buy side is not
  applied), appends to the trade history, calls \<open>handle_trade\<close> and appends its
  results to the closed-position history. The last three steps are
  \<open>_append_trade_to_history\<close>.
\<close>

definition execute_trade ::
  "ValuedTrade \<Rightarrow> Portfolio \<Rightarrow> ((error + unit) \<times> Portfolio) option" where
  "execute_trade trade p =
     (case remove_asset (assets p) (sell trade) of
        (Inl e, h) \<Rightarrow> Some (Inl e, p\<lparr>assets := h\<rparr>)
      | (Inr u, h1) \<Rightarrow>
          (case add_asset h1 (buy trade) of
             (Inl e, h) \<Rightarrow> Some (Inl e, p\<lparr>assets := h\<rparr>)
           | (Inr u, h2) \<Rightarrow> append_trade_to_history trade (p\<lparr>assets := h2\<rparr>)))"

section \<open>The legacy portfolio of \<open>env/_old\<close>\<close>

text \<open>
  Cash and values are Python floats. Their arithmetic rounds, overflows to infinity
  and has a not-a-number value, none of which is written out here: the float type
  \<open>'f\<close> and the operations that \<open>portfolio.py\<close> applies to it are a parameter of the
  model, so that every result below is the float expression of the source itself.
  \<open>eq_zero x\<close> is the test \<open>x == 0\<close>, \<open>int_zero\<close> the integer \<open>0\<close> that
  \<open>sum\<close> starts from, and \<open>truediv x y\<close> the quotient \<open>x / y\<close> for a divisor
  with \<open>not (y == 0)\<close>.
\<close>

record 'f float_ops =
  eq_zero :: "'f \<Rightarrow> bool"
  int_zero :: "'f"
  float_add :: "'f \<Rightarrow> 'f \<Rightarrow> 'f"
  float_sub :: "'f \<Rightarrow> 'f \<Rightarrow> 'f"
  truediv :: "'f \<Rightarrow> 'f \<Rightarrow> 'f"

record Position =
  ticker :: string
  held :: int

record 'f LegacyPortfolio =
  start_cash :: "'f"
  cash :: "'f"
  legacy_positions :: "Position list"

text \<open>
  \<open>Position.value\<close> reads \<open>self._market\<close>, which \<open>Position.__init__\<close> never sets,
  and has no implementation behind that: every call raises.
  \<open>CashPosition.value\<close> is the quantity of cash.
\<close>

definition position_value :: "Position \<Rightarrow> error + 'f" where
  "position_value p = Inl AttributeError"

text \<open>\<open>sum\<close> over the values of the positions, from the left, with its accumulator.\<close>

fun positions_sum :: "'f float_ops \<Rightarrow> 'f \<Rightarrow> Position list \<Rightarrow> error + 'f" where
  "positions_sum ops acc [] = Inr acc"
| "positions_sum ops acc (p # ps) =
     (case position_value p of
        Inl e \<Rightarrow> Inl e
      | Inr v \<Rightarrow> positions_sum ops (float_add ops acc v) ps)"

definition positions_value :: "'f float_ops \<Rightarrow> Position list \<Rightarrow> error + 'f" where
  "positions_value ops ps = positions_sum ops (int_zero ops) ps"

definition portfolio_value :: "'f float_ops \<Rightarrow> 'f LegacyPortfolio \<Rightarrow> error + 'f" where
  "portfolio_value ops p =
     (case positions_value ops (legacy_positions p) of
        Inl e \<Rightarrow> Inl e
      | Inr v \<Rightarrow> Inr (float_add ops (cash p) v))"

text \<open>
  Python's \<open>/\<close> raises \<open>ZeroDivisionError\<close> exactly on a divisor that compares
  equal to zero.
\<close>

definition py_div :: "'f float_ops \<Rightarrow> 'f \<Rightarrow> 'f \<Rightarrow> error + 'f" where
  "py_div ops x y = (if eq_zero ops y then Inl ZeroDivisionError else Inr (truediv ops x y))"

definition pl_ratio :: "'f float_ops \<Rightarrow> 'f LegacyPortfolio \<Rightarrow> error + 'f option" where
  "pl_ratio ops p =
     (if eq_zero ops (start_cash p) then Inr None
      else case portfolio_value ops p of
             Inl e \<Rightarrow> Inl e
           | Inr v \<Rightarrow>
               (case py_div ops (float_sub ops v (start_cash p)) (start_cash p) of
                  Inl e \<Rightarrow> Inl e
                | Inr r \<Rightarrow> Inr (Some r)))"

section \<open>Sample values\<close>

text \<open>
  Two instruments, the first being the benchmark, and a few trades between them: two
  purchases of the second instrument, of 5 and of 3 units, and sales of it.
\<close>

definition bench :: Instrument where
  "bench = Instrument ''USD'' 2"

definition stock :: Instrument where
  "stock = Instrument ''ACME'' 0"

definition units :: "Instrument \<Rightarrow> int \<Rightarrow> Asset" where
  "units i q = \<lparr>instrument = i, quantity = q\<rparr>"

definition exchange :: "Asset \<Rightarrow> Asset \<Rightarrow> ValuedTrade" where
  "exchange given taken = \<lparr>sell = given, buy = taken, valuation = units bench 0\<rparr>"

definition B1 :: ValuedTrade where
  "B1 = exchange (units bench 10) (units stock 5)"

definition B2 :: ValuedTrade where
  "B2 = exchange (units bench 6) (units stock 3)"

definition S1 :: ValuedTrade where
  "S1 = exchange (units stock 4) (units bench 8)"

definition S5 :: ValuedTrade where
  "S5 = exchange (units stock 5) (units bench 10)"

definition S7 :: ValuedTrade where
  "S7 = exchange (units stock 7) (units bench 14)"

definition S8 :: ValuedTrade where
  "S8 = exchange (units stock 8) (units bench 16)"

definition Z0 :: ValuedTrade where
  "Z0 = exchange (units stock 0) (units bench 0)"

text \<open>A lot stack that tracks the given lots of \<open>stock\<close> and nothing else.\<close>

definition lots :: "TradeTuple list \<Rightarrow> OpenPositionStack" where
  "lots ts = \<lparr>positions = (\<lambda>_. [])(stock := ts), benchmark = bench\<rparr>"

definition folio ::
  "Holdings \<Rightarrow> ValuedTrade list \<Rightarrow> TradeTuple list \<Rightarrow> ClosedPosition list \<Rightarrow> Portfolio" where
  "folio h ts ls cs =
     \<lparr>assets = h, trade_history = ts, open_positions = lots ls, closed_positions = cs\<rparr>"

text \<open>
  For the legacy portfolio: the operations on real numbers, which agree with the
  float operations on the sample values below (100, 150, 50 and one half), and
  portfolios with no position and with one.
\<close>

definition exact :: "real float_ops" where
  "exact = \<lparr>eq_zero = (\<lambda>x. x = 0), int_zero = 0, float_add = (+), float_sub = (-),
            truediv = (/)\<rparr>"

definition legacy :: "real \<Rightarrow> real \<Rightarrow> Position list \<Rightarrow> real LegacyPortfolio" where
  "legacy start now ps = \<lparr>start_cash = start, cash = now, legacy_positions = ps\<rparr>"

definition acme :: Position where
  "acme = \<lparr>ticker = ''ACME'', held = 1\<rparr>"

section \<open>Properties\<close>

lemmas sample_defs =
  bench_def stock_def units_def exchange_def B1_def B2_def S1_def S5_def S7_def S8_def
  Z0_def lots_def folio_def

lemmas asset_defs = asset_gt_zero_def asset_le_def asset_sub_def asset_add_def

lemmas stack_defs =
  handle_trade_def push_def pop_def pop_body_def list_append_def list_pop_def Let_def

lemmas holdings_defs = remove_asset_def add_asset_def has_asset_def getitem_def

subsection \<open>The popping loop\<close>

text \<open>
  A pass that does not raise keeps the sold quantity positive, and either shortens
  the list of the sold instrument or lowers the quantity of its top lot.
\<close>

lemma pop_body_next:
  assumes "pop_body trade sold ret s = (Inr (sold', ret'), s')"
    and "0 < quantity (sell trade)"
    and "0 < quantity sold"
  shows "0 < quantity sold' \<and>
         (s', s) \<in> measures
            [\<lambda>s. length (positions s (instrument (sell trade))),
             \<lambda>s. nat (quantity (lot_asset (last (positions s (instrument (sell trade))))))]"
  using assms
  by (auto simp: pop_body_def Let_def list_pop_def list_append_def asset_le_def asset_sub_def
      split: if_splits TradeTuple.splits sum.splits)

text \<open>A pass that raises: which errors, and what an \<open>IndexError\<close> says of the stack.\<close>

lemma pop_body_raise:
  assumes "pop_body trade sold ret s = (Inl e, s')"
  shows "e = IndexError \<and> positions s' (instrument (sell trade)) = []
         \<or> e = ValueError \<or> e = InstrumentMismatchError"
  using assms
  by (auto simp: pop_body_def Let_def asset_le_def asset_sub_def
      split: if_splits TradeTuple.splits sum.splits)

text \<open>
  Hence the loop, once entered with a positive sold quantity for a trade that sells a
  positive quantity, always ends, and ends by raising: no pass makes the loop
  condition false.
\<close>

lemma pop_loop_raises:
  assumes "0 < quantity (sell trade)" and "0 < quantity sold"
  shows "\<exists>e s'. pop_loop trade sold ret s = Some (Inl e, s')
           \<and> (e = IndexError \<and> positions s' (instrument (sell trade)) = []
               \<or> e = ValueError \<or> e = InstrumentMismatchError)"
  using assms(2)
proof (induction s arbitrary: sold ret
    rule: wf_induct_rule[OF wf_measures[of
            "[\<lambda>s. length (positions s (instrument (sell trade))),
              \<lambda>s. nat (quantity (lot_asset (last (positions s (instrument (sell trade))))))]"]])
  case (1 s)
  show ?case
  proof (cases "pop_body trade sold ret s")
    case (Pair r s')
    show ?thesis
    proof (cases r)
      case (Inl e)
      with Pair have b: "pop_body trade sold ret s = (Inl e, s')" by simp
      from b 1(2) have "pop_loop trade sold ret s = Some (Inl e, s')"
        by (subst pop_loop.simps) (simp add: asset_gt_zero_def)
      with pop_body_raise[OF b] show ?thesis by blast
    next
      case (Inr nx)
      obtain sold' ret' where nx: "nx = (sold', ret')" by (cases nx)
      from Pair Inr nx have b: "pop_body trade sold ret s = (Inr (sold', ret'), s')" by simp
      from b 1(2) have "pop_loop trade sold ret s = pop_loop trade sold' ret' s'"
        by (subst pop_loop.simps) (simp add: asset_gt_zero_def)
      with pop_body_next[OF b assms(1) 1(2)] 1(1)[of s' sold' ret'] show ?thesis
        by simp
    qed
  qed
qed

lemma pop_nothing_sold:
  "\<not> 0 < quantity (sell trade) \<Longrightarrow> pop trade s = Some (Inr [], s)"
  by (simp add: pop_def pop_loop.simps asset_gt_zero_def)

lemma pop_positive_raises:
  "0 < quantity (sell trade) \<Longrightarrow>
   \<exists>e s'. pop trade s = Some (Inl e, s')
     \<and> (e = IndexError \<and> positions s' (instrument (sell trade)) = []
         \<or> e = ValueError \<or> e = InstrumentMismatchError)"
  unfolding pop_def by (rule pop_loop_raises)

lemma benchmark_push [simp]: "benchmark (push trade s) = benchmark s"
  by (simp add: push_def list_append_def)

text \<open>A sale of a positive quantity of an instrument other than the benchmark raises.\<close>

lemma handle_trade_positive_sale_raises:
  assumes "instrument (sell trade) \<noteq> benchmark s" and "0 < quantity (sell trade)"
  shows "\<exists>e s'. handle_trade trade s = Some (Inl e, s')
           \<and> (e = IndexError \<and> positions s' (instrument (sell trade)) = []
               \<or> e = ValueError \<or> e = InstrumentMismatchError)"
proof (cases "instrument (buy trade) \<noteq> benchmark s")
  case True
  with assms(1) have "handle_trade trade s = pop trade (push trade s)"
    by (simp add: handle_trade_def Let_def)
  then show ?thesis
    using pop_positive_raises[OF assms(2), of "push trade s"] by simp
next
  case False
  with assms(1) have "handle_trade trade s = pop trade s"
    by (simp add: handle_trade_def Let_def)
  then show ?thesis
    using pop_positive_raises[OF assms(2), of s] by simp
qed

text \<open>The loop never runs forever: every call of \<open>handle_trade\<close> comes back.\<close>

lemma handle_trade_comes_back: "\<exists>r. handle_trade trade s = Some r"
proof (cases "instrument (sell trade) \<noteq> benchmark s \<and> 0 < quantity (sell trade)")
  case True
  then show ?thesis
    using handle_trade_positive_sale_raises[of trade s] by blast
next
  case False
  then show ?thesis
    by (auto simp: handle_trade_def Let_def pop_nothing_sold)
qed

text \<open>
  A trade that sells the benchmark pops nothing and returns no closed position; its
  bought asset is pushed exactly when the bought instrument is not the benchmark.
\<close>

lemma handle_trade_benchmark_sold:
  "instrument (sell trade) = benchmark s \<Longrightarrow>
   handle_trade trade s =
     Some (Inr [], if instrument (buy trade) \<noteq> benchmark s then push trade s else s)"
  by (simp add: handle_trade_def push_def list_append_def Let_def)

subsection \<open>Removal from the holdings\<close>


lemma remove_asset_value_error:
  "fst (remove_asset h a) = Inl ValueError
   \<longleftrightarrow> quantity (getitem h (instrument a)) < quantity a"
  by (auto simp: remove_asset_def has_asset_def asset_sub_def Let_def
      split: if_splits sum.splits)

subsection \<open>Trades on the portfolio\<close>



subsection \<open>The legacy value\<close>

lemma positions_sum_raises: "ps \<noteq> [] \<Longrightarrow> positions_sum ops acc ps = Inl AttributeError"
  by (cases ps) (simp_all add: position_value_def)

lemma portfolio_value_cases:
  "portfolio_value ops p =
     (if legacy_positions p = [] then Inr (float_add ops (cash p) (int_zero ops))
      else Inl AttributeError)"
  by (simp add: portfolio_value_def positions_value_def positions_sum_raises)

section \<open>The claims\<close>

subsection \<open>C1: partial consumption of the top lot\<close>

text \<open>
  C1 says that a pass over a top lot larger than the sold quantity still open reduces
  the lot by that open quantity, records that quantity once and stops, so that
  purchases of 5 and of 3 followed by a sale of 4 close 3 against the second purchase
  and 1 against the first. The code does otherwise. Run through \<open>handle_trade\<close>,
  the two purchases push tuples of three components, and the sale raises while
  unpacking the first tuple it pops: no closed position is returned and the lot of
  the second purchase is gone. On lots of the declared shape, the pass over the lot
  of 5 with 1 unit still open subtracts the whole 4 sold, records an amount of 4, and
  leaves the open quantity at 1 for a further pass; the sale then ends in
  \<open>IndexError\<close> on the emptied list.
\<close>

theorem C1_partial_lot_not_closed_as_claimed:
  "handle_trade B1 (lots []) = Some (Inr [], lots [Tuple3 (buy B1) 0 B1])
   \<and> handle_trade B2 (lots [Tuple3 (buy B1) 0 B1])
       = Some (Inr [], lots [Tuple3 (buy B1) 0 B1, Tuple3 (buy B2) 0 B2])
   \<and> handle_trade S1 (lots [Tuple3 (buy B1) 0 B1, Tuple3 (buy B2) 0 B2])
       = Some (Inl ValueError, lots [Tuple3 (buy B1) 0 B1])
   \<and> pop_body S1 (units stock 1) [] (lots [Tuple2 (units stock 5) B1])
       = (Inr (units stock 1, [\<lparr>amount = units stock 4, opened = B1, closed = S1\<rparr>]),
          lots [Tuple2 (units stock 1) B1])
   \<and> handle_trade S1 (lots [Tuple2 (units stock 5) B1, Tuple2 (units stock 3) B2])
       = Some (Inl IndexError, lots [])"
  by (simp add: stack_defs asset_defs sample_defs pop_loop.simps)

subsection \<open>C2: full consumption of the top lot\<close>

text \<open>
  C2 says that a top lot not larger than the sold quantity still open is consumed
  whole: it is recorded, removed without leaving an entry of quantity zero, and the
  open quantity is lowered by it; so that a sale of the whole tracked quantity
  leaves the stack of the instrument empty. With 5 and 3 units bought through
  \<open>handle_trade\<close>, the sale of all 8 raises \<open>ValueError\<close> while unpacking the tuple
  of the second purchase: nothing is recorded, and the lot of the first purchase is
  still on the stack. On a lot of the declared shape, the test
  \<open>sold_asset <= asset\<close> sends a lot equal to the open quantity to the branch for
  partial consumption: a sale of 5 against a lot of 5 puts a lot of quantity 0 back,
  leaves the open quantity at 5, and ends in \<open>IndexError\<close>.
\<close>

theorem C2_exact_sale_not_fully_consumed:
  "handle_trade B1 (lots []) = Some (Inr [], lots [Tuple3 (buy B1) 0 B1])
   \<and> handle_trade B2 (lots [Tuple3 (buy B1) 0 B1])
       = Some (Inr [], lots [Tuple3 (buy B1) 0 B1, Tuple3 (buy B2) 0 B2])
   \<and> lot_total (lots [Tuple3 (buy B1) 0 B1, Tuple3 (buy B2) 0 B2]) stock
       = quantity (sell S8)
   \<and> handle_trade S8 (lots [Tuple3 (buy B1) 0 B1, Tuple3 (buy B2) 0 B2])
       = Some (Inl ValueError, lots [Tuple3 (buy B1) 0 B1])
   \<and> quantity (units stock 5) \<le> quantity (sell S5)
   \<and> pop_body S5 (sell S5) [] (lots [Tuple2 (units stock 5) B1])
       = (Inr (units stock 5, [\<lparr>amount = units stock 5, opened = B1, closed = S5\<rparr>]),
          lots [Tuple2 (units stock 0) B1])
   \<and> handle_trade S5 (lots [Tuple2 (units stock 5) B1]) = Some (Inl IndexError, lots [])"
  by (simp add: lot_total_def stack_defs asset_defs sample_defs pop_loop.simps)

subsection \<open>C3: a covered sale returns\<close>

text \<open>
  C3 says that \<open>handle_trade\<close> returns whenever the lots of the sold instrument cover
  the sold quantity. The loop does end on every input (\<open>handle_trade_comes_back\<close>),
  but a sale of a positive quantity ends it by raising
  (\<open>handle_trade_positive_sale_raises\<close>). With 5 units bought through
  \<open>handle_trade\<close>, a sale of 4 raises \<open>ValueError\<close>; with one lot of 5 of the
  declared shape, the same sale raises \<open>IndexError\<close>.
\<close>

theorem C3_covered_sale_raises:
  "lot_total (lots [Tuple3 (buy B1) 0 B1]) stock = 5
   \<and> quantity (sell S1) = 4
   \<and> handle_trade S1 (lots [Tuple3 (buy B1) 0 B1]) = Some (Inl ValueError, lots [])
   \<and> lot_total (lots [Tuple2 (units stock 5) B1]) stock = 5
   \<and> handle_trade S1 (lots [Tuple2 (units stock 5) B1]) = Some (Inl IndexError, lots [])"
  by (simp add: lot_total_def stack_defs asset_defs sample_defs pop_loop.simps)

subsection \<open>C4: a sale beyond the tracked lots\<close>

text \<open>
  C4 says that a sale exceeding the tracked lots fails for want of lots and leaves
  the lot stacks as they were. With 5 units bought through \<open>handle_trade\<close>, a sale
  of 7 does fail, but with the \<open>ValueError\<close> of unpacking the tuple that the
  purchase pushed, and after \<open>pop\<close> has taken that tuple off the list: the stack
  is left empty. On a lot of the declared shape, the same sale pops the lot, runs
  out of lots and raises \<open>IndexError\<close>, and the lot is not put back either.
\<close>

theorem C4_oversell_leaves_stack_changed:
  "handle_trade B1 (lots []) = Some (Inr [], lots [Tuple3 (buy B1) 0 B1])
   \<and> lot_total (lots [Tuple3 (buy B1) 0 B1]) stock < quantity (sell S7)
   \<and> handle_trade S7 (lots [Tuple3 (buy B1) 0 B1]) = Some (Inl ValueError, lots [])
   \<and> lots [] \<noteq> lots [Tuple3 (buy B1) 0 B1]
   \<and> lot_total (lots [Tuple2 (units stock 5) B1]) stock < quantity (sell S7)
   \<and> handle_trade S7 (lots [Tuple2 (units stock 5) B1]) = Some (Inl IndexError, lots [])
   \<and> lots [] \<noteq> lots [Tuple2 (units stock 5) B1]"
proof -
  have "positions (lots []) stock \<noteq> positions (lots [Tuple3 (buy B1) 0 B1]) stock"
    by (simp add: lots_def)
  then have a: "lots [] \<noteq> lots [Tuple3 (buy B1) 0 B1]"
    by auto
  have "positions (lots []) stock \<noteq> positions (lots [Tuple2 (units stock 5) B1]) stock"
    by (simp add: lots_def)
  then have b: "lots [] \<noteq> lots [Tuple2 (units stock 5) B1]"
    by auto
  have c: "handle_trade B1 (lots []) = Some (Inr [], lots [Tuple3 (buy B1) 0 B1])
     \<and> lot_total (lots [Tuple3 (buy B1) 0 B1]) stock < quantity (sell S7)
     \<and> handle_trade S7 (lots [Tuple3 (buy B1) 0 B1]) = Some (Inl ValueError, lots [])
     \<and> lot_total (lots [Tuple2 (units stock 5) B1]) stock < quantity (sell S7)
     \<and> handle_trade S7 (lots [Tuple2 (units stock 5) B1]) = Some (Inl IndexError, lots [])"
    by (simp add: lot_total_def stack_defs asset_defs sample_defs pop_loop.simps)
  from a b c show ?thesis by blast
qed

subsection \<open>C5: the remainder after a removal\<close>

text \<open>
  C5 says that a removal leaves the previous quantity minus the removed one, and
  deletes the entry exactly when that remainder is zero. The two branches of the code
  are the other way round: removing 2 of 5 deletes the entry, so that the instrument
  reads as 0 instead of 3, and removing 5 of 5 keeps an entry of quantity 0.
\<close>

theorem C5_remove_asset_branches_swapped:
  "remove_asset [stock \<mapsto> units stock 5] (units stock 2) = (Inr (), Map.empty)
   \<and> quantity (getitem Map.empty stock) = 0
   \<and> remove_asset [stock \<mapsto> units stock 5] (units stock 5)
       = (Inr (), [stock \<mapsto> units stock 0])"
  by (simp add: holdings_defs asset_defs sample_defs)

subsection \<open>C6: when a removal fails\<close>

text \<open>
  C6 says that a removal fails exactly when the stored quantity is below the
  quantity to remove. The check of \<open>has_asset\<close> fails in exactly that case
  (\<open>remove_asset_value_error\<close>) and every failure leaves the holdings untouched
  (\<open>remove_asset_raise_unchanged\<close>), but the swapped branches add a second failure:
  removing a quantity of -1 of an instrument that is not held passes the check,
  finds a positive remainder and raises \<open>KeyError\<close> on the deletion.
\<close>

theorem C6_remove_asset_key_error:
  "\<not> quantity (getitem Map.empty stock) < quantity (units stock (- 1))
   \<and> remove_asset Map.empty (units stock (- 1)) = (Inl KeyError, Map.empty)"
  by (simp add: holdings_defs asset_defs sample_defs)

subsection \<open>C7: holdings against lots\<close>

text \<open>
  C7 says that after every trade the quantity held of an instrument other than the
  benchmark equals the total of its lots. Start with 10 units of the benchmark and no
  lots. Buying 5 units of \<open>stock\<close> for them gives a holding of 5 and one lot of 5.
  A following trade of quantity zero, selling 0 of \<open>stock\<close>, succeeds and records
  nothing, yet its removal finds a positive remainder and deletes the holding: the
  instrument then reads as 0 against a lot total of 5.
\<close>

theorem C7_conservation_broken:
  "execute_trade B1 (folio [bench \<mapsto> units bench 10] [] [] [])
     = Some (Inr (), folio [bench \<mapsto> units bench 0, stock \<mapsto> units stock 5]
                       [B1] [Tuple3 (buy B1) 0 B1] [])
   \<and> execute_trade Z0 (folio [bench \<mapsto> units bench 0, stock \<mapsto> units stock 5]
                         [B1] [Tuple3 (buy B1) 0 B1] [])
       = Some (Inr (), folio [bench \<mapsto> units bench 0] [B1, Z0] [Tuple3 (buy B1) 0 B1] [])
   \<and> quantity (getitem (assets (folio [bench \<mapsto> units bench 0] [B1, Z0]
                                   [Tuple3 (buy B1) 0 B1] [])) stock) = 0
   \<and> lot_total (open_positions (folio [bench \<mapsto> units bench 0] [B1, Z0]
                                   [Tuple3 (buy B1) 0 B1] [])) stock = 5"
  by (simp add: execute_trade_def append_trade_to_history_def lot_total_def
      holdings_defs stack_defs asset_defs sample_defs pop_loop.simps)

subsection \<open>C8: what a purchase pushes\<close>

text \<open>
  C8 says that \<open>handle_trade\<close> pushes the pair of the bought asset and the trade.
  It pushes a tuple of three components, with a 0 between the two, which is not of
  the type declared for the entries and which \<open>_pop\<close> cannot unpack. The rest of
  the claim holds (\<open>handle_trade_benchmark_sold\<close>).
\<close>

theorem C8_purchase_pushes_triple:
  "handle_trade B1 (lots []) = Some (Inr [], lots [Tuple3 (units stock 5) 0 B1])
   \<and> Tuple3 (units stock 5) 0 B1 \<noteq> Tuple2 (units stock 5) B1"
  by (simp add: stack_defs asset_defs sample_defs)

subsection \<open>C9: a failing trade\<close>




subsection \<open>C10: the guarded ratio of the legacy portfolio\<close>

text \<open>
  C10 says that \<open>pl_ratio\<close> returns \<open>None\<close> exactly when the starting cash is
  zero and otherwise returns the current value minus the starting cash, divided by
  the starting cash. With a starting cash of 100 and one position, it returns
  neither: the value of the position cannot be computed, and \<open>pl_ratio\<close> raises.
\<close>

theorem C10_position_makes_pl_ratio_raise:
  "\<not> eq_zero exact (start_cash (legacy 100 150 [acme]))
   \<and> pl_ratio exact (legacy 100 150 [acme]) = Inl AttributeError"
  by (simp add: pl_ratio_def portfolio_value_def positions_value_def position_value_def
      exact_def legacy_def)

text \<open>
  C10 as amended: \<open>pl_ratio\<close> returns \<open>None\<close> exactly when the starting cash
  compares equal to zero. Otherwise, for a portfolio without positions, whose value
  is its cash, it returns that value minus the starting cash, divided by the starting
  cash; for a portfolio with a position it raises the error of the value
  computation. The division is guarded: \<open>ZeroDivisionError\<close> is never raised.
\<close>

theorem C10_pl_ratio_cases:
  "(pl_ratio ops p = Inr None \<longleftrightarrow> eq_zero ops (start_cash p))
   \<and> (\<not> eq_zero ops (start_cash p) \<longrightarrow> legacy_positions p = [] \<longrightarrow>
        pl_ratio ops p =
          Inr (Some (truediv ops
                       (float_sub ops (float_add ops (cash p) (int_zero ops)) (start_cash p))
                       (start_cash p))))
   \<and> (\<not> eq_zero ops (start_cash p) \<longrightarrow> legacy_positions p \<noteq> [] \<longrightarrow>
        pl_ratio ops p = Inl AttributeError)
   \<and> pl_ratio ops p \<noteq> Inl ZeroDivisionError"
  by (simp add: pl_ratio_def py_div_def portfolio_value_cases)

text \<open>
  C10, the amended statement at portfolios that started with 100 and hold 150 in
  cash, one without a position, whose ratio is one half, and one with a position;
  and at a portfolio that started with nothing.
\<close>

theorem C10_pl_ratio_cases_witness:
  "\<not> eq_zero exact (start_cash (legacy 100 150 []))
   \<and> legacy_positions (legacy 100 150 []) = []
   \<and> pl_ratio exact (legacy 100 150 []) = Inr (Some (1 / 2))
   \<and> \<not> eq_zero exact (start_cash (legacy 100 150 [acme]))
   \<and> legacy_positions (legacy 100 150 [acme]) \<noteq> []
   \<and> pl_ratio exact (legacy 100 150 [acme]) = Inl AttributeError
   \<and> eq_zero exact (start_cash (legacy 0 0 []))
   \<and> pl_ratio exact (legacy 0 0 []) = Inr None"
proof -
  have h1: "\<not> eq_zero exact (start_cash (legacy 100 150 []))"
    by (simp add: exact_def legacy_def)
  have h2: "legacy_positions (legacy 100 150 []) = []"
    by (simp add: legacy_def)
  have h3: "\<not> eq_zero exact (start_cash (legacy 100 150 [acme]))"
    by (simp add: exact_def legacy_def)
  have h4: "legacy_positions (legacy 100 150 [acme]) \<noteq> []"
    by (simp add: legacy_def)
  have h5: "eq_zero exact (start_cash (legacy 0 0 []))"
    by (simp add: exact_def legacy_def)
  have v: "truediv exact
             (float_sub exact (float_add exact (cash (legacy 100 150 [])) (int_zero exact))
                (start_cash (legacy 100 150 [])))
             (start_cash (legacy 100 150 [])) = 1 / 2"
    by (simp add: exact_def legacy_def)
  show ?thesis
    using h1 h2 h3 h4 h5 v
      C10_pl_ratio_cases[of exact "legacy 100 150 []"]
      C10_pl_ratio_cases[of exact "legacy 100 150 [acme]"]
      C10_pl_ratio_cases[of exact "legacy 0 0 []"]
    by simp
qed

end
